theory Spec2Isabelle
  imports Main "HOL-Library.Word" "HOL-Library.Sublist"
begin

unbundle bit_operations_syntax

section \<open>Shared types and constants of \<open>main.c\<close>\<close>

text \<open>
  \<open>esp_err_t\<close> is a 32-bit integer; the code only compares it for equality and tests it
  for being non-zero. The values are those of ESP-IDF's \<open>esp_err.h\<close>.
\<close>

type_synonym esp_err_t = "32 word"

definition ESP_OK :: esp_err_t where
  "ESP_OK = 0"

definition ESP_FAIL :: esp_err_t where
  "ESP_FAIL = - 1"

definition ESP_ERR_NOT_FOUND :: esp_err_t where
  "ESP_ERR_NOT_FOUND = 0x105"

definition ESP_ERR_INVALID_STATE :: esp_err_t where
  "ESP_ERR_INVALID_STATE = 0x103"

text \<open>Log lines are kept as the level and the fixed text of the format string.\<close>

datatype log_level = ESP_LOG_ERROR | ESP_LOG_WARN | ESP_LOG_INFO | ESP_LOG_DEBUG

type_synonym log_line = "log_level \<times> string"


section \<open>Network attach: \<open>event_handler\<close> and \<open>wifi_init_sta\<close>\<close>

type_synonym EventBits_t = "32 word"

definition WIFI_CONNECTED_BIT :: EventBits_t where
  "WIFI_CONNECTED_BIT = 1"

definition WIFI_FAIL_BIT :: EventBits_t where
  "WIFI_FAIL_BIT = 2"

text \<open>
  The handler is registered for every id of \<open>WIFI_EVENT\<close> and for
  \<open>IP_EVENT_STA_GOT_IP\<close>; the ids it does not name are collected in one constructor each.
\<close>

datatype wifi_event_id = WIFI_EVENT_STA_START | WIFI_EVENT_STA_DISCONNECTED | WIFI_EVENT_OTHER

datatype ip_event_id = IP_EVENT_STA_GOT_IP | IP_EVENT_OTHER

datatype event = WIFI_EVENT wifi_event_id | IP_EVENT ip_event_id

text \<open>
  The state the handler touches: the static \<open>s_retry_num\<close>, the bits of
  \<open>s_wifi_event_group\<close>, and the number of calls of \<open>esp_wifi_connect\<close> made so far.
  \<open>s_retry_num\<close> is a C \<open>int\<close>; it is only incremented while it is below
  \<open>CONFIG_ESP_MAXIMUM_RETRY\<close>, itself an \<open>int\<close>, so the increment cannot wrap and the
  counter is modelled as an unbounded integer.
\<close>

record wifi_state =
  s_retry_num :: int
  s_wifi_event_group :: EventBits_t
  connect_calls :: nat

definition esp_wifi_connect :: "wifi_state \<Rightarrow> wifi_state" where
  "esp_wifi_connect st = st\<lparr>connect_calls := Suc (connect_calls st)\<rparr>"

definition xEventGroupSetBits :: "EventBits_t \<Rightarrow> wifi_state \<Rightarrow> wifi_state" where
  "xEventGroupSetBits b st = st\<lparr>s_wifi_event_group := s_wifi_event_group st OR b\<rparr>"

text \<open>\<open>CONFIG_ESP_MAXIMUM_RETRY\<close> is a build-time constant; it is the first argument.\<close>

fun event_handler :: "int \<Rightarrow> event \<Rightarrow> wifi_state \<Rightarrow> wifi_state" where
  "event_handler maxretry (WIFI_EVENT WIFI_EVENT_STA_START) st = esp_wifi_connect st"
| "event_handler maxretry (WIFI_EVENT WIFI_EVENT_STA_DISCONNECTED) st =
     (if s_retry_num st < maxretry
      then (esp_wifi_connect st)\<lparr>s_retry_num := s_retry_num st + 1\<rparr>
      else xEventGroupSetBits WIFI_FAIL_BIT st)"
| "event_handler maxretry (IP_EVENT IP_EVENT_STA_GOT_IP) st =
     xEventGroupSetBits WIFI_CONNECTED_BIT (st\<lparr>s_retry_num := 0\<rparr>)"
| "event_handler maxretry _ st = st"

text \<open>
  \<open>xEventGroupWaitBits(group, CONNECTED | FAIL, pdFALSE, pdFALSE, portMAX_DELAY)\<close>: the
  caller sleeps until one of the two bits is set. The events delivered meanwhile are
  the list; each is run through the handler. The call returns the state at the first
  moment a bit is set, and \<open>None\<close> when the events run out with neither bit set (the
  caller is still blocked).
\<close>

fun xEventGroupWaitBits :: "int \<Rightarrow> event list \<Rightarrow> wifi_state \<Rightarrow> wifi_state option" where
  "xEventGroupWaitBits maxretry [] st =
     (if s_wifi_event_group st AND (WIFI_CONNECTED_BIT OR WIFI_FAIL_BIT) \<noteq> 0 then Some st
      else None)"
| "xEventGroupWaitBits maxretry (e # es) st =
     (if s_wifi_event_group st AND (WIFI_CONNECTED_BIT OR WIFI_FAIL_BIT) \<noteq> 0 then Some st
      else xEventGroupWaitBits maxretry es (event_handler maxretry e st))"

text \<open>The branch on the returned bits, lines 126 to 134.\<close>

definition attach_result :: "EventBits_t \<Rightarrow> esp_err_t" where
  "attach_result bits =
     (if bits AND WIFI_CONNECTED_BIT \<noteq> 0 then ESP_OK
      else if bits AND WIFI_FAIL_BIT \<noteq> 0 then ESP_FAIL
      else ESP_FAIL)"

text \<open>
  \<open>wifi_init_sta\<close>: a fresh event group, \<open>s_retry_num\<close> at its static initial value 0,
  the wait, the branch. Both handler instances are unregistered before the function
  returns, so the events left in the list when the wait returns are not handled: the
  returned state is final.
\<close>

definition wifi_initial :: wifi_state where
  "wifi_initial = \<lparr>s_retry_num = 0, s_wifi_event_group = 0, connect_calls = 0\<rparr>"

definition wifi_init_sta :: "int \<Rightarrow> event list \<Rightarrow> (esp_err_t \<times> wifi_state) option" where
  "wifi_init_sta maxretry evs =
     (case xEventGroupWaitBits maxretry evs wifi_initial of
        None \<Rightarrow> None
      | Some st \<Rightarrow> Some (attach_result (s_wifi_event_group st), st))"

section \<open>Name resolution: \<open>query_mdns_host\<close> and \<open>convert_mdns_host\<close>\<close>

text \<open>
  A C string is modelled by its characters before the terminating NUL. \<open>strstr\<close>
  returns the offset of the first occurrence of the needle (the C function returns the
  pointer \<open>haystack + offset\<close>), or \<open>None\<close> for \<open>NULL\<close>.
\<close>

fun strstr :: "string \<Rightarrow> string \<Rightarrow> nat option" where
  "strstr [] needle = (if needle = [] then Some 0 else None)"
| "strstr (c # cs) needle =
     (if prefix needle (c # cs) then Some 0
      else case strstr cs needle of None \<Rightarrow> None | Some i \<Rightarrow> Some (Suc i))"

text \<open>
  \<open>sprintf(ip, IPSTR, IP2STR(&addr))\<close>: \<open>IPSTR\<close> is \<open>"%d.%d.%d.%d"\<close> and \<open>IP2STR\<close>
  reads the four bytes of \<open>addr\<close> in memory order, on the little-endian target the
  lowest byte first.
\<close>

fun print_d :: "nat \<Rightarrow> string" where
  "print_d n =
     (if n < 10 then [''0123456789'' ! n]
      else print_d (n div 10) @ [''0123456789'' ! (n mod 10)])"

definition esp_ip4_addr_get_byte :: "32 word \<Rightarrow> nat \<Rightarrow> nat" where
  "esp_ip4_addr_get_byte addr i = unat (drop_bit (8 * i) addr AND 0xFF)"

definition sprintf_IPSTR :: "32 word \<Rightarrow> string" where
  "sprintf_IPSTR addr =
     print_d (esp_ip4_addr_get_byte addr 0) @ ''.'' @
     print_d (esp_ip4_addr_get_byte addr 1) @ ''.'' @
     print_d (esp_ip4_addr_get_byte addr 2) @ ''.'' @
     print_d (esp_ip4_addr_get_byte addr 3)"

text \<open>
  \<open>mdns_query_a(host_name, 10000, &addr)\<close> is the mDNS library's query; it is the
  parameter \<open>mdns_query_a\<close>, giving the error code and the address it stores.
  \<open>query_mdns_host\<close> returns its \<open>esp_err_t\<close>, what it wrote to \<open>ip\<close> (\<open>None\<close>: the
  buffer was not written), and its log lines.
\<close>

type_synonym mdns_stub = "string \<Rightarrow> esp_err_t \<times> 32 word"

definition query_mdns_host :: "mdns_stub \<Rightarrow> string \<Rightarrow> esp_err_t \<times> string option \<times> log_line list" where
  "query_mdns_host mdns_query_a host_name =
     (let (err, addr) = mdns_query_a host_name in
      if err \<noteq> 0 then
        (if err = ESP_ERR_NOT_FOUND
         then (ESP_FAIL, None, [(ESP_LOG_DEBUG, ''Query A''), (ESP_LOG_WARN, ''Host was not found!'')])
         else (ESP_FAIL, None, [(ESP_LOG_DEBUG, ''Query A''), (ESP_LOG_ERROR, ''Query Failed'')]))
      else (ESP_OK, Some (sprintf_IPSTR addr),
            [(ESP_LOG_DEBUG, ''Query A''), (ESP_LOG_DEBUG, ''resolved to'')]))"

text \<open>
  \<open>convert_mdns_host(from, to)\<close>. The result is the C string left in \<open>to\<close>, a buffer
  of the caller that the function writes with \<open>strcpy\<close> without knowing its size.
  The local \<open>char _from[128]\<close> (here \<open>from'\<close>) receives \<open>strcpy(_from, from)\<close>: a
  source of 128 or more characters writes past the array, which is undefined behaviour
  and the fault value here. \<open>_from[_len] = 0\<close> cuts the copy at the offset \<open>strstr\<close>
  found. \<open>_ip\<close> (here \<open>ip\<close>) is written by \<open>query_mdns_host\<close> exactly when it returns
  \<open>ESP_OK\<close>. The log lines of the function are not part of the result.
\<close>

datatype fault = StackBufferOverflow

definition convert_mdns_host :: "mdns_stub \<Rightarrow> string \<Rightarrow> fault + string" where
  "convert_mdns_host mdns_query_a from =
     (let to = from in
      case strstr from ''.local'' of
        None \<Rightarrow> Inr to
      | Some len \<Rightarrow>
          if 128 \<le> length from then Inl StackBufferOverflow
          else
            let from' = take len from;
                (ret, ip, logs) = query_mdns_host mdns_query_a from'
            in if ret \<noteq> ESP_OK then Inr to
               else (case ip of None \<Rightarrow> Inr to | Some ip' \<Rightarrow> Inr ip'))"


text \<open>
  Two stand-ins for the mDNS library in the scenarios of the specification: a directory
  that knows the listed names and reports every other name as not found, and a query
  that fails with a given error code for every name.
\<close>

definition mdns_directory :: "(string \<times> 32 word) list \<Rightarrow> mdns_stub" where
  "mdns_directory d host_name =
     (case map_of d host_name of
        Some addr \<Rightarrow> (ESP_OK, addr)
      | None \<Rightarrow> (ESP_ERR_NOT_FOUND, 0))"

definition mdns_failing :: "esp_err_t \<Rightarrow> mdns_stub" where
  "mdns_failing err host_name = (err, 0)"


section \<open>Radio-side workers: \<open>receiver\<close> and \<open>sender\<close>\<close>

type_synonym byte = "8 word"

definition xItemSize :: nat where
  "xItemSize = 32"

definition payload :: nat where
  "payload = 32"

text \<open>What a task does that another component can observe, in order.\<close>

datatype action =
    MessageBufferSend "byte list"
  | Nrf24_send "byte list"
  | Log log_level string
  | TaskDelay
  | TaskDelete

datatype loop_ctl = Continue | Break | UndefinedBehaviour

datatype task_status = Running | Deleted | Halted | Undefined

text \<open>Writing \<open>data\<close> to the start of the array \<open>buf\<close>; the rest of \<open>buf\<close> stays.\<close>

definition store_bytes :: "byte list \<Rightarrow> byte list \<Rightarrow> byte list" where
  "store_bytes buf data = data @ drop (length data) buf"

text \<open>\<open>Nrf24_getData(&dev, buf)\<close> copies the \<open>payload\<close> bytes of the frame into \<open>buf\<close>.\<close>

definition Nrf24_getData :: "byte list \<Rightarrow> byte list \<Rightarrow> byte list" where
  "Nrf24_getData frame buf = store_bytes buf (take payload frame)"

text \<open>
  \<open>strlen((char *)buf)\<close> on the array \<open>buf\<close>: the number of bytes before the first
  zero byte. With no zero byte in the array the scan leaves it, which is undefined
  behaviour: \<open>None\<close>.
\<close>

definition strlen :: "byte list \<Rightarrow> nat option" where
  "strlen buf = (if 0 \<in> set buf then Some (length (takeWhile (\<lambda>b. b \<noteq> 0) buf)) else None)"

text \<open>
  One pass of a \<open>while(1)\<close> body takes what the outside world answers in that pass and
  the contents of \<open>buf\<close>, and gives how the pass ends, the new \<open>buf\<close> and the actions.
  The loop runs one pass for each answer; \<open>Running\<close> says the task is still in its loop
  when the answers run out.
\<close>

fun run_loop :: "('e \<Rightarrow> byte list \<Rightarrow> loop_ctl \<times> byte list \<times> action list) \<Rightarrow> 'e list \<Rightarrow> byte list
    \<Rightarrow> task_status \<times> byte list \<times> action list" where
  "run_loop body [] buf = (Running, buf, [])"
| "run_loop body (e # es) buf =
     (case body e buf of
        (Continue, buf', acts) \<Rightarrow>
          (case run_loop body es buf' of (s, buf'', rest) \<Rightarrow> (s, buf'', acts @ rest))
      | (Break, buf', acts) \<Rightarrow> (Deleted, buf', acts @ [TaskDelete])
      | (UndefinedBehaviour, buf', acts) \<Rightarrow> (Undefined, buf', acts))"

text \<open>The messages sent into the uplink channel and the frames handed to the radio.\<close>

fun uplink_sends :: "action list \<Rightarrow> byte list list" where
  "uplink_sends [] = []"
| "uplink_sends (MessageBufferSend m # acts) = m # uplink_sends acts"
| "uplink_sends (a # acts) = uplink_sends acts"

fun radio_frames :: "action list \<Rightarrow> byte list list" where
  "radio_frames [] = []"
| "radio_frames (Nrf24_send f # acts) = f # radio_frames acts"
| "radio_frames (a # acts) = radio_frames acts"

text \<open>
  The receiver's pass, lines 245 to 260. The world answers \<open>Nrf24_dataReady\<close>, the
  frame \<open>Nrf24_getData\<close> delivers, and the return value of \<open>xMessageBufferSend\<close>.
\<close>

record rx_env =
  dataReady :: bool
  frame :: "byte list"
  sended :: nat

definition receiver_cycle :: "rx_env \<Rightarrow> byte list \<Rightarrow> loop_ctl \<times> byte list \<times> action list" where
  "receiver_cycle env buf =
     (if dataReady env then
        (let buf = Nrf24_getData (frame env) buf in
         case strlen buf of
           None \<Rightarrow> (UndefinedBehaviour, buf, [])
         | Some rxLen \<Rightarrow>
             if sended env \<noteq> rxLen
             then (Break, buf, [MessageBufferSend (take rxLen buf),
                                Log ESP_LOG_ERROR ''xMessageBufferSend fail''])
             else (Continue, buf, [MessageBufferSend (take rxLen buf), TaskDelay]))
      else (Continue, buf, [TaskDelay]))"

text \<open>
  \<open>receiver\<close>: \<open>ret\<close> is what \<open>Nrf24_setRADDR\<close> returned, \<open>stale\<close> the frames read while
  clearing the RX FIFO, \<open>buf0\<close> the indeterminate first contents of \<open>buf[xItemSize]\<close>,
  cut or extended to the size of the array. A failed \<open>Nrf24_setRADDR\<close> leaves the task
  in \<open>while(1) { vTaskDelay(1); }\<close> for ever: \<open>Halted\<close>.
\<close>

definition array_of :: "nat \<Rightarrow> byte list \<Rightarrow> byte list" where
  "array_of n buf0 = take n (buf0 @ replicate n 0)"

definition receiver :: "esp_err_t \<Rightarrow> byte list list \<Rightarrow> rx_env list \<Rightarrow> byte list
    \<Rightarrow> task_status \<times> byte list \<times> action list" where
  "receiver ret stale envs buf0 =
     (if ret \<noteq> ESP_OK
      then (Halted, array_of xItemSize buf0, [Log ESP_LOG_ERROR ''nrf24l01 not installed''])
      else run_loop receiver_cycle envs
             (foldl (\<lambda>buf f. Nrf24_getData f buf) (array_of xItemSize buf0) stale))"

text \<open>
  \<open>xMessageBufferReceive(xMessageBufferRecv, buf, sizeof(buf), portMAX_DELAY)\<close> by the
  FreeRTOS contract: the next message of the channel is copied to the start of \<open>buf\<close>
  and its length returned; a message longer than the buffer stays in the channel and 0 is
  returned.
\<close>

definition xMessageBufferReceive :: "byte list \<Rightarrow> byte list \<Rightarrow> nat \<times> byte list" where
  "xMessageBufferReceive msg buf =
     (if length buf < length msg then (0, buf) else (length msg, store_bytes buf msg))"

text \<open>
  The sender's pass, lines 293 to 304. The world answers the message at the head of the
  downlink channel and the result of \<open>Nrf24_isSend(&dev, 1000)\<close>. \<open>memset\<close> overwrites
  all \<open>xItemSize\<close> bytes of \<open>buf[xItemSize]\<close>.
\<close>

record tx_env =
  message :: "byte list"
  isSend :: bool

definition sender_cycle :: "tx_env \<Rightarrow> byte list \<Rightarrow> loop_ctl \<times> byte list \<times> action list" where
  "sender_cycle env buf =
     (let buf = store_bytes buf (replicate xItemSize 0);
          (received, buf) = xMessageBufferReceive (message env) buf
      in (Continue, buf,
          [Log ESP_LOG_INFO ''xMessageBufferReceive received'',
           Nrf24_send buf,
           Log ESP_LOG_INFO ''Wait for sending.....'',
           if isSend env then Log ESP_LOG_INFO ''Send success''
           else Log ESP_LOG_WARN ''Send fail'']))"

text \<open>
  \<open>sender\<close>: \<open>ret\<close> is what \<open>Nrf24_setTADDR\<close> returned, \<open>buf0\<close> the indeterminate first
  contents of \<open>buf[xItemSize]\<close>. The loop has no \<open>break\<close>.
\<close>

definition sender :: "esp_err_t \<Rightarrow> tx_env list \<Rightarrow> byte list
    \<Rightarrow> task_status \<times> byte list \<times> action list" where
  "sender ret envs buf0 =
     (if ret \<noteq> ESP_OK
      then (Halted, array_of xItemSize buf0, [Log ESP_LOG_ERROR ''nrf24l01 not installed''])
      else run_loop sender_cycle envs (array_of xItemSize buf0))"

text \<open>
  The frame a message of the downlink channel is to travel in: the message followed by
  zero bytes up to \<open>xItemSize\<close>; a message that does not fit the buffer is not received,
  which leaves the zeros alone.
\<close>

definition zero_padded :: "byte list \<Rightarrow> byte list" where
  "zero_padded msg =
     (if xItemSize < length msg then replicate xItemSize 0
      else msg @ replicate (xItemSize - length msg) 0)"


section \<open>Properties of the network attach\<close>

lemma wait_retries:
  "s_wifi_event_group st = 0 \<Longrightarrow> s_retry_num st + int k \<le> maxretry \<Longrightarrow>
   xEventGroupWaitBits maxretry (replicate k (WIFI_EVENT WIFI_EVENT_STA_DISCONNECTED) @ evs) st =
   xEventGroupWaitBits maxretry evs
     (st\<lparr>s_retry_num := s_retry_num st + int k, connect_calls := connect_calls st + k\<rparr>)"
proof (induction k arbitrary: st)
  case 0
  then show ?case by simp
next
  case (Suc k)
  define st1 where
    "st1 = st\<lparr>s_retry_num := s_retry_num st + 1, connect_calls := Suc (connect_calls st)\<rparr>"
  from Suc.prems have lt: "s_retry_num st < maxretry" by simp
  then have h: "event_handler maxretry (WIFI_EVENT WIFI_EVENT_STA_DISCONNECTED) st = st1"
    by (simp add: st1_def esp_wifi_connect_def)
  have eq: "st1\<lparr>s_retry_num := s_retry_num st1 + int k, connect_calls := connect_calls st1 + k\<rparr> =
      st\<lparr>s_retry_num := s_retry_num st + int (Suc k), connect_calls := connect_calls st + Suc k\<rparr>"
    by (simp add: st1_def add.assoc)
  have "xEventGroupWaitBits maxretry
          (replicate (Suc k) (WIFI_EVENT WIFI_EVENT_STA_DISCONNECTED) @ evs) st =
        xEventGroupWaitBits maxretry
          (replicate k (WIFI_EVENT WIFI_EVENT_STA_DISCONNECTED) @ evs) st1"
    using Suc.prems(1) by (simp add: h del: event_handler.simps)
  also have "\<dots> = xEventGroupWaitBits maxretry evs
      (st1\<lparr>s_retry_num := s_retry_num st1 + int k, connect_calls := connect_calls st1 + k\<rparr>)"
    by (rule Suc.IH) (use Suc.prems in \<open>simp_all add: st1_def\<close>)
  finally show ?case by (simp only: eq)
qed

lemma wait_terminal:
  "s_wifi_event_group st AND (WIFI_CONNECTED_BIT OR WIFI_FAIL_BIT) \<noteq> 0 \<Longrightarrow>
   xEventGroupWaitBits maxretry evs st = Some st"
  by (cases evs) simp_all

lemma wait_got_ip:
  "s_wifi_event_group st = 0 \<Longrightarrow>
   xEventGroupWaitBits maxretry (IP_EVENT IP_EVENT_STA_GOT_IP # rest) st =
   Some (st\<lparr>s_retry_num := 0, s_wifi_event_group := WIFI_CONNECTED_BIT\<rparr>)"
  by (simp add: wait_terminal xEventGroupSetBits_def WIFI_CONNECTED_BIT_def WIFI_FAIL_BIT_def)

lemma wait_exhausted:
  "s_wifi_event_group st = 0 \<Longrightarrow> maxretry \<le> s_retry_num st \<Longrightarrow>
   xEventGroupWaitBits maxretry (WIFI_EVENT WIFI_EVENT_STA_DISCONNECTED # rest) st =
   Some (st\<lparr>s_wifi_event_group := WIFI_FAIL_BIT\<rparr>)"
  by (simp add: wait_terminal xEventGroupSetBits_def WIFI_CONNECTED_BIT_def WIFI_FAIL_BIT_def)

lemma wait_blocked_after_retries:
  "0 \<le> maxretry \<Longrightarrow>
   wifi_init_sta maxretry (replicate (nat maxretry) (WIFI_EVENT WIFI_EVENT_STA_DISCONNECTED)) = None"
  using wait_retries [of wifi_initial "nat maxretry" maxretry "[]"]
  by (simp add: wifi_init_sta_def wifi_initial_def)

text \<open>
  Claim C3, with the boundary where the code has it. Starting from retry counter 0,
  \<open>k\<close> disconnect events followed by the address-acquired event make the attach
  call return \<open>ESP_OK\<close> with the connected bit set whenever \<open>k\<close> is at most the retry
  limit (the limit itself included). More than the limit of disconnect events make
  it return \<open>ESP_FAIL\<close> with the fail bit set after exactly as many connection attempts as
  the limit allows, whatever events follow: the call has returned and its handlers are
  unregistered, so none of them is handled. The handler itself, given a further
  disconnect event once the counter has reached the limit, issues no connection attempt.
\<close>

theorem attach_retry_limit:
  "(int k \<le> maxretry \<longrightarrow>
      wifi_init_sta maxretry
        (replicate k (WIFI_EVENT WIFI_EVENT_STA_DISCONNECTED) @ IP_EVENT IP_EVENT_STA_GOT_IP # rest) =
      Some (ESP_OK,
            \<lparr>s_retry_num = 0, s_wifi_event_group = WIFI_CONNECTED_BIT, connect_calls = k\<rparr>)) \<and>
   (maxretry < int k \<longrightarrow> 0 < k \<longrightarrow>
      wifi_init_sta maxretry (replicate k (WIFI_EVENT WIFI_EVENT_STA_DISCONNECTED) @ rest) =
      Some (ESP_FAIL,
            \<lparr>s_retry_num = max 0 maxretry, s_wifi_event_group = WIFI_FAIL_BIT,
               connect_calls = nat maxretry\<rparr>)) \<and>
   (maxretry \<le> s_retry_num st \<longrightarrow>
      connect_calls (event_handler maxretry (WIFI_EVENT WIFI_EVENT_STA_DISCONNECTED) st) =
      connect_calls st)"
proof (intro conjI impI)
  assume le: "int k \<le> maxretry"
  have "xEventGroupWaitBits maxretry
          (replicate k (WIFI_EVENT WIFI_EVENT_STA_DISCONNECTED) @ IP_EVENT IP_EVENT_STA_GOT_IP # rest)
          wifi_initial
      = Some \<lparr>s_retry_num = 0, s_wifi_event_group = WIFI_CONNECTED_BIT, connect_calls = k\<rparr>"
    using le
    by (subst wait_retries)
       (simp_all add: wifi_initial_def wait_got_ip del: xEventGroupWaitBits.simps)
  then show "wifi_init_sta maxretry
      (replicate k (WIFI_EVENT WIFI_EVENT_STA_DISCONNECTED) @ IP_EVENT IP_EVENT_STA_GOT_IP # rest) =
      Some (ESP_OK, \<lparr>s_retry_num = 0, s_wifi_event_group = WIFI_CONNECTED_BIT, connect_calls = k\<rparr>)"
    by (simp add: wifi_init_sta_def attach_result_def WIFI_CONNECTED_BIT_def)
next
  assume gt: "maxretry < int k" and pos: "0 < k"
  define m where "m = nat maxretry"
  define j where "j = k - Suc m"
  have "m < k" using gt pos unfolding m_def by (cases "0 \<le> maxretry") simp_all
  then have k: "k = m + Suc j" by (simp add: j_def)
  have split: "replicate k (WIFI_EVENT WIFI_EVENT_STA_DISCONNECTED) @ rest =
      replicate m (WIFI_EVENT WIFI_EVENT_STA_DISCONNECTED) @
      (WIFI_EVENT WIFI_EVENT_STA_DISCONNECTED #
       replicate j (WIFI_EVENT WIFI_EVENT_STA_DISCONNECTED) @ rest)"
    by (simp add: k replicate_add replicate_append_same)
  have "xEventGroupWaitBits maxretry
          (replicate k (WIFI_EVENT WIFI_EVENT_STA_DISCONNECTED) @ rest) wifi_initial
      = Some \<lparr>s_retry_num = max 0 maxretry, s_wifi_event_group = WIFI_FAIL_BIT,
               connect_calls = nat maxretry\<rparr>"
  proof (cases "0 \<le> maxretry")
    case True
    then show ?thesis unfolding split
      by (subst wait_retries)
         (simp_all add: wifi_initial_def wait_exhausted m_def del: xEventGroupWaitBits.simps)
  next
    case False
    then have "m = 0" by (simp add: m_def)
    with False show ?thesis unfolding split
      by (simp add: wifi_initial_def wait_exhausted m_def del: xEventGroupWaitBits.simps)
  qed
  then show "wifi_init_sta maxretry (replicate k (WIFI_EVENT WIFI_EVENT_STA_DISCONNECTED) @ rest) =
      Some (ESP_FAIL, \<lparr>s_retry_num = max 0 maxretry, s_wifi_event_group = WIFI_FAIL_BIT,
                        connect_calls = nat maxretry\<rparr>)"
    by (simp add: wifi_init_sta_def attach_result_def WIFI_CONNECTED_BIT_def WIFI_FAIL_BIT_def)
next
  assume "maxretry \<le> s_retry_num st"
  then show "connect_calls (event_handler maxretry (WIFI_EVENT WIFI_EVENT_STA_DISCONNECTED) st) =
      connect_calls st"
    by (simp add: xEventGroupSetBits_def)
qed

theorem attach_retry_limit_witness:
  "wifi_init_sta 2 [WIFI_EVENT WIFI_EVENT_STA_DISCONNECTED, IP_EVENT IP_EVENT_STA_GOT_IP] =
     Some (ESP_OK, \<lparr>s_retry_num = 0, s_wifi_event_group = WIFI_CONNECTED_BIT, connect_calls = 1\<rparr>) \<and>
   wifi_init_sta 2 [WIFI_EVENT WIFI_EVENT_STA_DISCONNECTED, WIFI_EVENT WIFI_EVENT_STA_DISCONNECTED,
                    WIFI_EVENT WIFI_EVENT_STA_DISCONNECTED, WIFI_EVENT WIFI_EVENT_STA_START] =
     Some (ESP_FAIL, \<lparr>s_retry_num = 2, s_wifi_event_group = WIFI_FAIL_BIT, connect_calls = 2\<rparr>) \<and>
   connect_calls (event_handler 2 (WIFI_EVENT WIFI_EVENT_STA_DISCONNECTED)
       \<lparr>s_retry_num = 2, s_wifi_event_group = WIFI_FAIL_BIT, connect_calls = 2\<rparr>) = 2"
  using attach_retry_limit [of 1 2 "[]"]
        attach_retry_limit [of 3 2 "[WIFI_EVENT WIFI_EVENT_STA_START]"
          "\<lparr>s_retry_num = 2, s_wifi_event_group = WIFI_FAIL_BIT, connect_calls = 2\<rparr>"]
  by (simp add: numeral_3_eq_3)

text \<open>
  Against C3 as the specification words it: with retry limit 2 and \<open>k = 2\<close> disconnect
  events, \<open>k \<ge> maxRetries\<close> holds, yet the fail bit is not set after them (the call is
  still waiting), and the address-acquired event that follows makes the call return
  \<open>ESP_OK\<close>.
\<close>

theorem attach_boundary_counterexample:
  "wifi_init_sta 2 [WIFI_EVENT WIFI_EVENT_STA_DISCONNECTED, WIFI_EVENT WIFI_EVENT_STA_DISCONNECTED]
     = None \<and>
   wifi_init_sta 2 [WIFI_EVENT WIFI_EVENT_STA_DISCONNECTED, WIFI_EVENT WIFI_EVENT_STA_DISCONNECTED,
                    IP_EVENT IP_EVENT_STA_GOT_IP] =
     Some (ESP_OK, \<lparr>s_retry_num = 0, s_wifi_event_group = WIFI_CONNECTED_BIT, connect_calls = 2\<rparr>)"
  by (simp add: wifi_init_sta_def wifi_initial_def attach_result_def esp_wifi_connect_def
      xEventGroupSetBits_def WIFI_CONNECTED_BIT_def WIFI_FAIL_BIT_def ESP_OK_def)

text \<open>
  Claim C9. If both the connected bit and the fail bit are set in the bits the wait
  returns, the attach call reports \<open>ESP_OK\<close>: the connected bit is tested first.
\<close>

theorem connected_bit_precedence:
  "bits AND WIFI_CONNECTED_BIT \<noteq> 0 \<Longrightarrow> bits AND WIFI_FAIL_BIT \<noteq> 0 \<Longrightarrow>
   attach_result bits = ESP_OK"
  by (simp add: attach_result_def)

theorem connected_bit_precedence_witness:
  "(3 :: EventBits_t) AND WIFI_CONNECTED_BIT \<noteq> 0 \<and> (3 :: EventBits_t) AND WIFI_FAIL_BIT \<noteq> 0 \<and>
   attach_result 3 = ESP_OK"
proof -
  have c: "(3 :: EventBits_t) AND WIFI_CONNECTED_BIT \<noteq> 0" by (simp add: WIFI_CONNECTED_BIT_def)
  have f: "(3 :: EventBits_t) AND WIFI_FAIL_BIT \<noteq> 0" by (simp add: WIFI_FAIL_BIT_def)
  from c f connected_bit_precedence [OF c f] show ?thesis by simp
qed


section \<open>Properties of the name resolution\<close>

lemma query_mdns_host_ret:
  "fst (query_mdns_host mdns h) = (if fst (mdns h) = 0 then ESP_OK else ESP_FAIL)"
  by (simp add: query_mdns_host_def split: prod.splits)

lemma ESP_FAIL_neq_OK: "ESP_FAIL \<noteq> ESP_OK"
  by (simp add: ESP_FAIL_def ESP_OK_def)

text \<open>
  Claim C2, as the code has it. \<open>query_mdns_host\<close> returns \<open>ESP_OK\<close> and the printed
  address exactly when the query reports no error, and the one value \<open>ESP_FAIL\<close> with
  the buffer untouched for every error code. A name that was not found and any other
  query error differ only in the log: a warning for the first, an error line for the
  second.
\<close>

theorem query_mdns_host_outcomes:
  "fst (query_mdns_host mdns h) = (if fst (mdns h) = 0 then ESP_OK else ESP_FAIL) \<and>
   fst (snd (query_mdns_host mdns h)) =
     (if fst (mdns h) = 0 then Some (sprintf_IPSTR (snd (mdns h))) else None) \<and>
   ((ESP_LOG_WARN, ''Host was not found!'') \<in> set (snd (snd (query_mdns_host mdns h)))
      \<longleftrightarrow> fst (mdns h) = ESP_ERR_NOT_FOUND) \<and>
   ((ESP_LOG_ERROR, ''Query Failed'') \<in> set (snd (snd (query_mdns_host mdns h)))
      \<longleftrightarrow> fst (mdns h) \<noteq> 0 \<and> fst (mdns h) \<noteq> ESP_ERR_NOT_FOUND)"
  by (auto simp add: query_mdns_host_def ESP_ERR_NOT_FOUND_def split: prod.splits)

theorem query_mdns_host_outcomes_witness:
  "fst (query_mdns_host (mdns_failing ESP_ERR_NOT_FOUND) ''broker'') = ESP_FAIL \<and>
   fst (snd (query_mdns_host (mdns_failing ESP_ERR_NOT_FOUND) ''broker'')) = None \<and>
   (ESP_LOG_WARN, ''Host was not found!'')
     \<in> set (snd (snd (query_mdns_host (mdns_failing ESP_ERR_NOT_FOUND) ''broker''))) \<and>
   (ESP_LOG_ERROR, ''Query Failed'')
     \<notin> set (snd (snd (query_mdns_host (mdns_failing ESP_ERR_NOT_FOUND) ''broker'')))"
  using query_mdns_host_outcomes [of "mdns_failing ESP_ERR_NOT_FOUND" "''broker''"]
  by (simp add: mdns_failing_def ESP_ERR_NOT_FOUND_def)

text \<open>
  Against C2 as the specification words it: a name that is not found and a query that
  failed because the mDNS service is not running give the caller the same return value
  and the same (unwritten) buffer.
\<close>

theorem query_not_found_counterexample:
  "fst (query_mdns_host (mdns_failing ESP_ERR_NOT_FOUND) ''broker'') =
   fst (query_mdns_host (mdns_failing ESP_ERR_INVALID_STATE) ''broker'') \<and>
   fst (snd (query_mdns_host (mdns_failing ESP_ERR_NOT_FOUND) ''broker'')) =
   fst (snd (query_mdns_host (mdns_failing ESP_ERR_INVALID_STATE) ''broker''))"
  by (simp add: query_mdns_host_def mdns_failing_def ESP_ERR_NOT_FOUND_def ESP_ERR_INVALID_STATE_def)

subsection \<open>\<open>strstr\<close> finds the first occurrence\<close>

lemma strstr_None_iff: "strstr h n = None \<longleftrightarrow> \<not> sublist n h"
proof (induction h)
  case Nil
  then show ?case by auto
next
  case (Cons c cs)
  then show ?case
    by (cases n) (auto simp: sublist_Cons_right split: option.splits)
qed

text \<open>
  \<open>.local\<close> cannot overlap itself: its first character occurs nowhere else in it. So an
  occurrence that starts inside a text \<open>q\<close> followed by \<open>.local\<close> lies inside \<open>q\<close>.
\<close>

lemma local_no_overlap:
  assumes "prefix ''.local'' (q @ ''.local'' @ t)"
  shows "q = [] \<or> prefix ''.local'' q"
proof (cases q)
  case Nil
  then show ?thesis by simp
next
  case q1: (Cons a1 r1)
  show ?thesis
  proof (cases r1)
    case Nil
    with q1 assms show ?thesis by simp
  next
    case q2: (Cons a2 r2)
    show ?thesis
    proof (cases r2)
      case Nil
      with q1 q2 assms show ?thesis by simp
    next
      case q3: (Cons a3 r3)
      show ?thesis
      proof (cases r3)
        case Nil
        with q1 q2 q3 assms show ?thesis by simp
      next
        case q4: (Cons a4 r4)
        show ?thesis
        proof (cases r4)
          case Nil
          with q1 q2 q3 q4 assms show ?thesis by simp
        next
          case q5: (Cons a5 r5)
          show ?thesis
          proof (cases r5)
            case Nil
            with q1 q2 q3 q4 q5 assms show ?thesis by simp
          next
            case (Cons a6 r6)
            with q1 q2 q3 q4 q5 assms show ?thesis by auto
          qed
        qed
      qed
    qed
  qed
qed

lemma strstr_first_local:
  "\<not> sublist ''.local'' p \<Longrightarrow> strstr (p @ ''.local'' @ t) ''.local'' = Some (length p)"
proof (induction p)
  case Nil
  then show ?case by simp
next
  case (Cons a p)
  from Cons.prems have np: "\<not> prefix ''.local'' (a # p)" and ns: "\<not> sublist ''.local'' p"
    by (auto simp: sublist_Cons_right)
  have "\<not> prefix ''.local'' ((a # p) @ ''.local'' @ t)"
    using local_no_overlap [of "a # p" t] np by blast
  then show ?case using Cons.IH [OF ns] by simp
qed

subsection \<open>The paths of \<open>convert_mdns_host\<close>\<close>

lemma convert_no_local:
  "\<not> sublist ''.local'' from \<Longrightarrow> convert_mdns_host mdns from = Inr from"
  using strstr_None_iff [of "from" "''.local''"] by (simp add: convert_mdns_host_def)

lemma convert_overflow:
  "sublist ''.local'' from \<Longrightarrow> 128 \<le> length from \<Longrightarrow>
   convert_mdns_host mdns from = Inl StackBufferOverflow"
  using strstr_None_iff [of "from" "''.local''"]
  by (auto simp add: convert_mdns_host_def split: option.splits)

lemma convert_query_fails:
  "length from < 128 \<Longrightarrow> strstr from ''.local'' = Some i \<Longrightarrow> fst (mdns (take i from)) \<noteq> 0 \<Longrightarrow>
   convert_mdns_host mdns from = Inr from"
  using query_mdns_host_ret [of mdns "take i from"]
  by (auto simp add: convert_mdns_host_def Let_def ESP_FAIL_neq_OK ESP_FAIL_neq_OK [symmetric]
      split: prod.splits)

lemma convert_query_ok:
  "length from < 128 \<Longrightarrow> strstr from ''.local'' = Some i \<Longrightarrow> mdns (take i from) = (0, addr) \<Longrightarrow>
   convert_mdns_host mdns from = Inr (sprintf_IPSTR addr)"
  by (simp add: convert_mdns_host_def query_mdns_host_def)

text \<open>
  Within the 128 bytes of \<open>_from\<close> the rewrite fails open: a text without \<open>.local\<close>, or
  one whose name does not resolve, comes back as it was.
\<close>

lemma convert_fail_open_within_buffer:
  assumes "length from < 128"
    and "\<not> sublist ''.local'' from \<or> (\<forall>h. fst (mdns h) \<noteq> 0)"
  shows "convert_mdns_host mdns from = Inr from"
proof (cases "strstr from ''.local''")
  case None
  then show ?thesis by (simp add: convert_mdns_host_def)
next
  case (Some i)
  with assms(2) strstr_None_iff [of "from" "''.local''"] have "fst (mdns (take i from)) \<noteq> 0"
    by auto
  with assms(1) Some show ?thesis by (rule convert_query_fails)
qed

text \<open>
  Within the 128 bytes of \<open>_from\<close> the rewrite cuts at the first \<open>.local\<close>, resolves what
  stands before it and, when that resolves, returns the address alone: whatever followed
  \<open>.local\<close> is gone.
\<close>

lemma convert_first_occurrence:
  assumes "\<not> sublist ''.local'' p"
    and "length (p @ ''.local'' @ t) < 128"
    and "mdns p = (ESP_OK, addr)"
  shows "convert_mdns_host mdns (p @ ''.local'' @ t) = Inr (sprintf_IPSTR addr)"
proof -
  have "strstr (p @ ''.local'' @ t) ''.local'' = Some (length p)"
    by (rule strstr_first_local [OF assms(1)])
  moreover have "mdns (take (length p) (p @ ''.local'' @ t)) = (0, addr)"
    using assms(3) by (simp add: ESP_OK_def)
  ultimately show ?thesis
    using assms(2) by (rule convert_query_ok [rotated])
qed

text \<open>
  Claim C4 at an input the code mishandles: a text of 136 characters that ends in
  \<open>.local\<close>, with a resolver that finds no name. The claim asks for the text back
  unchanged; the code copies it into the 128 bytes of \<open>_from\<close> before it queries, and
  writes past the array.
\<close>

theorem rewrite_unresolved_long_text_overflows:
  "convert_mdns_host (mdns_failing ESP_ERR_NOT_FOUND) (replicate 130 CHR ''a'' @ ''.local'') =
     Inl StackBufferOverflow"
  by code_simp

text \<open>
  Claim C5, for a text in which the trailing \<open>.local\<close> is the only one and which fits
  the 128 bytes of \<open>_from\<close>: when the part before the suffix resolves, the rewrite
  returns the resolved address printed in dotted decimal. With a resolver that knows
  \<open>broker\<close> at 10.0.0.5, \<open>broker.local\<close> becomes \<open>10.0.0.5\<close>.
\<close>

theorem rewrite_local_suffix:
  "\<not> sublist ''.local'' p \<Longrightarrow> length (p @ ''.local'') < 128 \<Longrightarrow> mdns p = (ESP_OK, addr) \<Longrightarrow>
   convert_mdns_host mdns (p @ ''.local'') = Inr (sprintf_IPSTR addr)"
  using convert_first_occurrence [of p "[]" mdns addr] by simp

theorem rewrite_local_suffix_witness:
  "\<not> sublist ''.local'' ''broker'' \<and>
   length (''broker'' @ ''.local'') < 128 \<and>
   mdns_directory [(''broker'', 0x0500000A)] ''broker'' = (ESP_OK, 0x0500000A) \<and>
   convert_mdns_host (mdns_directory [(''broker'', 0x0500000A)]) ''broker.local'' = Inr ''10.0.0.5''"
proof -
  have h1: "\<not> sublist ''.local'' ''broker''" by code_simp
  have h2: "length (''broker'' @ ''.local'') < 128" by simp
  have h3: "mdns_directory [(''broker'', 0x0500000A)] ''broker'' = (ESP_OK, 0x0500000A)"
    by (simp add: mdns_directory_def)
  have ip: "sprintf_IPSTR 0x0500000A = ''10.0.0.5''"
    by (simp add: sprintf_IPSTR_def esp_ip4_addr_get_byte_def)
  from rewrite_local_suffix [of "''broker''" "mdns_directory [(''broker'', 0x0500000A)]" "0x0500000A",
      OF h1 h2 h3] h1 h2 h3 ip
  show ?thesis by simp
qed

text \<open>
  Against C5 as the specification words it: \<open>x.local.local\<close> ends in the suffix and
  the text before the suffix, \<open>x.local\<close>, resolves to 10.0.0.5; the code cuts at the
  first \<open>.local\<close>, asks for \<open>x\<close>, which is not found, and returns the text unchanged.
\<close>

theorem rewrite_suffix_counterexample:
  "suffix ''.local'' ''x.local.local'' \<and>
   query_mdns_host (mdns_directory [(''x.local'', 0x0500000A)]) ''x.local'' =
     (ESP_OK, Some ''10.0.0.5'', [(ESP_LOG_DEBUG, ''Query A''), (ESP_LOG_DEBUG, ''resolved to'')]) \<and>
   convert_mdns_host (mdns_directory [(''x.local'', 0x0500000A)]) ''x.local.local'' =
     Inr ''x.local.local''"
  by code_simp

text \<open>
  Claim C8 at an input the code mishandles: a name of 130 characters followed by
  \<open>.local:1883\<close>, with a resolver that knows the name. The claim asks for the resolved
  address; the code copies the whole text into the 128 bytes of \<open>_from\<close> before it
  cuts it, and writes past the array.
\<close>

theorem rewrite_resolved_long_text_overflows:
  "convert_mdns_host (mdns_directory [(replicate 130 CHR ''b'', 0x0500000A)])
     (replicate 130 CHR ''b'' @ ''.local:1883'') = Inl StackBufferOverflow"
  by code_simp


section \<open>Properties of the radio-side workers\<close>

lemma run_loop_append:
  "run_loop body pre buf = (Running, buf', acts) \<Longrightarrow>
   run_loop body (pre @ es) buf =
     (case run_loop body es buf' of (s, b, rest) \<Rightarrow> (s, b, acts @ rest))"
proof (induction pre arbitrary: buf acts)
  case Nil
  then show ?case by (simp split: prod.splits)
next
  case (Cons e pre)
  obtain c b1 a1 where body: "body e buf = (c, b1, a1)" by (cases "body e buf")
  show ?case
  proof (cases c)
    case Continue
    obtain s2 b2 a2 where r: "run_loop body pre b1 = (s2, b2, a2)"
      by (cases "run_loop body pre b1")
    with Cons.prems body Continue have "s2 = Running" "b2 = buf'" "acts = a1 @ a2" by simp_all
    with r have "run_loop body pre b1 = (Running, buf', a2)" by simp
    from Cons.IH [OF this] show ?thesis
      using body Continue \<open>acts = a1 @ a2\<close> by (simp split: prod.splits)
  next
    case Break
    with Cons.prems body show ?thesis by simp
  next
    case UndefinedBehaviour
    with Cons.prems body show ?thesis by simp
  qed
qed

subsection \<open>Receiver\<close>

lemma strlen_frame:
  "0 \<in> set f \<Longrightarrow> strlen (f @ r) = Some (length (takeWhile (\<lambda>b. b \<noteq> 0) f))"
  by (simp add: strlen_def takeWhile_append1 [of _ f "\<lambda>b. b \<noteq> 0"])

lemma take_strlen_frame:
  "0 \<in> set f \<Longrightarrow>
   take (length (takeWhile (\<lambda>b. b \<noteq> 0) f)) (f @ r) = takeWhile (\<lambda>b. b \<noteq> (0::byte)) f"
  by (metis append_assoc append_eq_conv_conj takeWhile_dropWhile_id)

text \<open>
  Claim C1, as the code has it. For every frame of \<open>payload\<close> bytes that the main loop
  drains and that contains a zero byte, the pass makes exactly one send into the uplink
  channel, and the message sent is the frame read as a C string: its bytes before the
  first zero byte.
\<close>

theorem receiver_forwards_text:
  assumes "dataReady e"
    and "length (frame e) = payload"
    and "0 \<in> set (frame e)"
  shows "uplink_sends (snd (snd (receiver_cycle e buf))) = [takeWhile (\<lambda>b. b \<noteq> 0) (frame e)]"
proof -
  define n where "n = length (takeWhile (\<lambda>b. b \<noteq> 0) (frame e))"
  have g: "Nrf24_getData (frame e) buf = frame e @ drop payload buf"
    using assms(2) by (simp add: Nrf24_getData_def store_bytes_def)
  have s: "strlen (frame e @ drop payload buf) = Some n"
    unfolding n_def by (rule strlen_frame [OF assms(3)])
  have t: "take n (frame e @ drop payload buf) = takeWhile (\<lambda>b. b \<noteq> 0) (frame e)"
    unfolding n_def by (rule take_strlen_frame [OF assms(3)])
  show ?thesis
    using assms(1) by (simp add: receiver_cycle_def Let_def g s t del: take_append)
qed

theorem receiver_forwards_text_witness:
  "dataReady \<lparr>dataReady = True, frame = [0x48, 0x69] @ replicate 30 0, sended = 2\<rparr> \<and>
   length (frame \<lparr>dataReady = True, frame = [0x48, 0x69] @ replicate 30 0, sended = 2\<rparr>) = payload \<and>
   0 \<in> set (frame \<lparr>dataReady = True, frame = [0x48, 0x69] @ replicate 30 0, sended = 2\<rparr>) \<and>
   uplink_sends (snd (snd (receiver_cycle
       \<lparr>dataReady = True, frame = [0x48, 0x69] @ replicate 30 0, sended = 2\<rparr> (replicate 32 0xFF))))
     = [[0x48, 0x69]]"
  using receiver_forwards_text
    [of "\<lparr>dataReady = True, frame = [0x48, 0x69] @ replicate 30 0, sended = 2\<rparr>" "replicate 32 0xFF"]
  by (simp add: payload_def)

text \<open>
  A frame with no zero byte among its \<open>payload\<close> bytes fills the array, and \<open>strlen\<close>
  reads past it: nothing is sent by the model, which stops at the undefined behaviour.
\<close>

lemma receiver_full_frame_overreads:
  assumes "dataReady e"
    and "length (frame e) = payload"
    and "0 \<notin> set (frame e)"
    and "length buf = xItemSize"
  shows "receiver_cycle e buf = (UndefinedBehaviour, frame e, [])"
  using assms
  by (simp add: receiver_cycle_def Nrf24_getData_def store_bytes_def strlen_def
      payload_def xItemSize_def)

text \<open>
  Against C1 as the specification words it: from a frame of 32 bytes whose second byte
  is zero and whose third is not, the receiver sends the first byte alone; the frame is
  not forwarded whole.
\<close>

theorem receiver_truncates_counterexample:
  "length ([0x41, 0x00, 0x42] @ replicate 29 (0::byte)) = payload \<and>
   uplink_sends (snd (snd (receiver ESP_OK []
       [\<lparr>dataReady = True, frame = [0x41, 0x00, 0x42] @ replicate 29 0, sended = 1\<rparr>] [])))
     = [[0x41]] \<and>
   uplink_sends (snd (snd (receiver ESP_OK []
       [\<lparr>dataReady = True, frame = [0x41, 0x00, 0x42] @ replicate 29 0, sended = 1\<rparr>] [])))
     \<noteq> [[0x41, 0x00, 0x42] @ replicate 29 0]"
  by code_simp

text \<open>
  Claim C6. When a pass of the receiver's main loop drains a frame and the send into the
  uplink channel returns fewer bytes than the length of the message, the loop is left
  at that pass and the task deletes itself; no later pass runs, whatever the radio or
  the channel would have answered.
\<close>

theorem receiver_stops_on_short_send:
  assumes "run_loop receiver_cycle pre buf = (Running, buf', acts)"
    and "dataReady e"
    and "strlen (Nrf24_getData (frame e) buf') = Some rxLen"
    and "sended e < rxLen"
  shows "run_loop receiver_cycle (pre @ e # es) buf =
     (Deleted, Nrf24_getData (frame e) buf',
      acts @ [MessageBufferSend (take rxLen (Nrf24_getData (frame e) buf')),
              Log ESP_LOG_ERROR ''xMessageBufferSend fail'', TaskDelete])"
proof -
  have "receiver_cycle e buf' =
      (Break, Nrf24_getData (frame e) buf',
       [MessageBufferSend (take rxLen (Nrf24_getData (frame e) buf')),
        Log ESP_LOG_ERROR ''xMessageBufferSend fail''])"
    using assms(2-4) by (simp add: receiver_cycle_def Let_def)
  then show ?thesis
    by (simp add: run_loop_append [OF assms(1)])
qed

theorem receiver_stops_on_short_send_witness:
  "run_loop receiver_cycle [\<lparr>dataReady = False, frame = [], sended = 0\<rparr>] (replicate 32 0xFF) =
     (Running, replicate 32 0xFF, [TaskDelay]) \<and>
   dataReady \<lparr>dataReady = True, frame = [0x48, 0x69] @ replicate 30 0, sended = 0\<rparr> \<and>
   strlen (Nrf24_getData
       (frame \<lparr>dataReady = True, frame = [0x48, 0x69] @ replicate 30 0, sended = 0\<rparr>)
       (replicate 32 0xFF)) = Some 2 \<and>
   sended \<lparr>dataReady = True, frame = [0x48, 0x69] @ replicate 30 0, sended = 0\<rparr> < 2 \<and>
   fst (run_loop receiver_cycle
       ([\<lparr>dataReady = False, frame = [], sended = 0\<rparr>] @
        \<lparr>dataReady = True, frame = [0x48, 0x69] @ replicate 30 0, sended = 0\<rparr> #
        [\<lparr>dataReady = True, frame = [0x4F, 0x4B] @ replicate 30 0, sended = 2\<rparr>])
       (replicate 32 0xFF)) = Deleted"
proof -
  have h1: "run_loop receiver_cycle [\<lparr>dataReady = False, frame = [], sended = 0\<rparr>]
      (replicate 32 0xFF) = (Running, replicate 32 0xFF, [TaskDelay])"
    by (simp add: receiver_cycle_def)
  have h2: "dataReady \<lparr>dataReady = True, frame = [0x48, 0x69] @ replicate 30 0, sended = 0\<rparr>"
    by simp
  have h3: "strlen (Nrf24_getData
      (frame \<lparr>dataReady = True, frame = [0x48, 0x69] @ replicate 30 0, sended = 0\<rparr>)
      (replicate 32 0xFF)) = Some 2"
    by code_simp
  have h4: "sended \<lparr>dataReady = True, frame = [0x48, 0x69] @ replicate 30 0, sended = 0\<rparr> < 2"
    by simp
  from receiver_stops_on_short_send [OF h1 h2 h3 h4] h1 h2 h3 h4 show ?thesis
    by simp
qed

subsection \<open>Sender\<close>

lemma sender_cycle_ctl: "fst (sender_cycle e buf) = Continue"
  by (simp add: sender_cycle_def Let_def split: prod.splits)

lemma sender_cycle_frames:
  "length (radio_frames (snd (snd (sender_cycle e buf)))) = 1"
  by (simp add: sender_cycle_def Let_def split: prod.splits)

lemma radio_frames_append: "radio_frames (xs @ ys) = radio_frames xs @ radio_frames ys"
  by (induction xs rule: radio_frames.induct) simp_all

lemma sender_cycle_warn:
  "count_list (snd (snd (sender_cycle e buf))) (Log ESP_LOG_WARN ''Send fail'') =
     (if isSend e then 0 else 1)"
  by (simp add: sender_cycle_def Let_def split: prod.splits)

lemma sender_loop_runs:
  "fst (run_loop sender_cycle es buf) = Running \<and>
   length (radio_frames (snd (snd (run_loop sender_cycle es buf)))) = length es \<and>
   count_list (snd (snd (run_loop sender_cycle es buf))) (Log ESP_LOG_WARN ''Send fail'') =
     length (filter (\<lambda>e. \<not> isSend e) es)"
proof (induction es arbitrary: buf)
  case Nil
  then show ?case by simp
next
  case (Cons e es)
  obtain c b1 a1 where body: "sender_cycle e buf = (c, b1, a1)" by (cases "sender_cycle e buf")
  with sender_cycle_ctl [of e buf] have c: "c = Continue" by simp
  obtain s2 b2 a2 where r: "run_loop sender_cycle es b1 = (s2, b2, a2)"
    by (cases "run_loop sender_cycle es b1")
  from Cons.IH [of b1] r have ih: "s2 = Running" "length (radio_frames a2) = length es"
      "count_list a2 (Log ESP_LOG_WARN ''Send fail'') = length (filter (\<lambda>e. \<not> isSend e) es)"
    by simp_all
  from sender_cycle_frames [of e buf] body have f1: "length (radio_frames a1) = 1" by simp
  from sender_cycle_warn [of e buf] body
  have w1: "count_list a1 (Log ESP_LOG_WARN ''Send fail'') = (if isSend e then 0 else 1)" by simp
  show ?case
    using body c r ih f1 w1 by (simp add: radio_frames_append)
qed

text \<open>
  Claim C7. Every pass of the sender's loop ends by going on to the next pass, whether
  \<open>Nrf24_isSend\<close> reported success or failure. After any number of passes the task is
  still in its loop; it has handed exactly one frame to the radio per pass (a failed
  transmission is not sent again), and it has logged one \<open>Send fail\<close> warning per failed
  transmission.
\<close>

theorem sender_never_stops:
  "fst (sender_cycle e buf) = Continue \<and>
   fst (sender ESP_OK es buf0) = Running \<and>
   length (radio_frames (snd (snd (sender ESP_OK es buf0)))) = length es \<and>
   count_list (snd (snd (sender ESP_OK es buf0))) (Log ESP_LOG_WARN ''Send fail'') =
     length (filter (\<lambda>e. \<not> isSend e) es)"
  using sender_loop_runs [of es "array_of xItemSize buf0"]
  by (simp add: sender_def sender_cycle_ctl)

theorem sender_never_stops_witness:
  "fst (sender_cycle \<lparr>message = [1, 2, 3], isSend = False\<rparr> []) = Continue \<and>
   fst (sender ESP_OK [\<lparr>message = [1, 2, 3], isSend = False\<rparr>, \<lparr>message = [9], isSend = True\<rparr>] [])
     = Running \<and>
   length (radio_frames (snd (snd (sender ESP_OK
       [\<lparr>message = [1, 2, 3], isSend = False\<rparr>, \<lparr>message = [9], isSend = True\<rparr>] [])))) = 2 \<and>
   count_list (snd (snd (sender ESP_OK
       [\<lparr>message = [1, 2, 3], isSend = False\<rparr>, \<lparr>message = [9], isSend = True\<rparr>] [])))
     (Log ESP_LOG_WARN ''Send fail'') = 1"
  using sender_never_stops
    [of "\<lparr>message = [1, 2, 3], isSend = False\<rparr>" "[]"
        "[\<lparr>message = [1, 2, 3], isSend = False\<rparr>, \<lparr>message = [9], isSend = True\<rparr>]" "[]"]
  by simp

lemma sender_cycle_padded:
  "length buf = xItemSize \<Longrightarrow>
   sender_cycle e buf =
     (Continue, zero_padded (message e),
        [Log ESP_LOG_INFO ''xMessageBufferReceive received'',
         Nrf24_send (zero_padded (message e)),
         Log ESP_LOG_INFO ''Wait for sending.....'',
         if isSend e then Log ESP_LOG_INFO ''Send success'' else Log ESP_LOG_WARN ''Send fail''])"
  by (simp add: sender_cycle_def store_bytes_def xMessageBufferReceive_def zero_padded_def Let_def)

lemma length_zero_padded: "length (zero_padded m) = xItemSize"
  by (simp add: zero_padded_def)

lemma sender_loop_frames:
  "length buf = xItemSize \<Longrightarrow>
   radio_frames (snd (snd (run_loop sender_cycle es buf))) = map (\<lambda>e. zero_padded (message e)) es"
proof (induction es arbitrary: buf)
  case Nil
  then show ?case by simp
next
  case (Cons e es)
  obtain s2 b2 a2 where r: "run_loop sender_cycle es (zero_padded (message e)) = (s2, b2, a2)"
    by (cases "run_loop sender_cycle es (zero_padded (message e))")
  from Cons.IH [OF length_zero_padded, of "message e"] r
  have "radio_frames a2 = map (\<lambda>e. zero_padded (message e)) es" by simp
  then show ?case
    using r by (simp add: sender_cycle_padded [OF Cons.prems])
qed

text \<open>
  Claim C10. The frames the sender hands to the radio are, pass by pass, the messages
  it received, each followed by zero bytes up to \<open>xItemSize\<close>: the buffer is zero-filled
  before every receive, so nothing of an earlier, longer message is left behind a
  shorter one, and the first contents of the buffer never show. This holds for a
  message of any length; one longer than the buffer is not received and the frame is all
  zero.
\<close>

theorem sender_frames_zero_padded:
  "radio_frames (snd (snd (sender ESP_OK es buf0))) =
     map (\<lambda>e. if xItemSize < length (message e) then replicate xItemSize 0
               else message e @ replicate (xItemSize - length (message e)) 0) es"
  using sender_loop_frames [of "array_of xItemSize buf0" es]
  by (simp add: sender_def array_of_def zero_padded_def)

theorem sender_frames_zero_padded_witness:
  "radio_frames (snd (snd (sender ESP_OK
     [\<lparr>message = [1, 2, 3], isSend = False\<rparr>, \<lparr>message = [9], isSend = True\<rparr>] [7, 7, 7])))
   = [[1, 2, 3] @ replicate 29 0, [9] @ replicate 31 0]"
  using sender_frames_zero_padded
    [of "[\<lparr>message = [1, 2, 3], isSend = False\<rparr>, \<lparr>message = [9], isSend = True\<rparr>]" "[7, 7, 7]"]
  by (simp add: xItemSize_def)

end
